theory Spec2Isabelle
  imports Main "HOL-Library.Word"
begin

unbundle bit_operations_syntax

section \<open>Basic types\<close>

text \<open>
  A \<open>HexPoint\<close> is an enumerator of the C++ enum of that name: the index of a board
  location, of an edge or of a special move. A \<open>bitset_t\<close> is a fixed-capacity bitset
  indexed by points; it is modelled by the set of the indices of its set bits.
  \<open>byte\<close> is an unsigned 8-bit value; the C++ \<open>int\<close> fields are 32-bit machine words.
\<close>

type_synonym HexPoint = nat
type_synonym bitset_t = "nat set"
type_synonym byte = "8 word"
type_synonym cint = "32 word"

text \<open>
  Modelled from the spec: the constant \<open>EMPTY_BITSET\<close>, which VCUtil.cpp uses and
  does not define: the empty carrier.
\<close>

definition EMPTY_BITSET :: bitset_t where
  "EMPTY_BITSET = {}"

section \<open>DfsData: a solved state (DfsData.hpp)\<close>

record DfsData =
  win :: bool
  flags :: cint
  numstates :: cint
  nummoves :: cint
  bestmove :: HexPoint

definition FLAG_TRANSPOSITION :: cint where
  "FLAG_TRANSPOSITION = 1"

definition FLAG_MIRROR_TRANSPOSITION :: cint where
  "FLAG_MIRROR_TRANSPOSITION = 2"

text \<open>
  The enumerator \<open>INVALID_POINT\<close> is declared outside DfsData.hpp, so the functions
  that mention it take its value as their first argument.
\<close>

definition DfsData_default :: "HexPoint \<Rightarrow> DfsData" where
  "DfsData_default INVALID_POINT =
     \<lparr>win = False, flags = 0, numstates = 0, nummoves = 0, bestmove = INVALID_POINT\<rparr>"

definition DfsData_init :: "bool \<Rightarrow> cint \<Rightarrow> cint \<Rightarrow> HexPoint \<Rightarrow> DfsData" where
  "DfsData_init w nstates nmoves bmove =
     \<lparr>win = w, flags = 0, numstates = nstates, nummoves = nmoves, bestmove = bmove\<rparr>"

definition Initialized :: "HexPoint \<Rightarrow> DfsData \<Rightarrow> bool" where
  "Initialized INVALID_POINT r = (bestmove r \<noteq> INVALID_POINT)"

definition ReplaceWith :: "DfsData \<Rightarrow> DfsData \<Rightarrow> bool" where
  "ReplaceWith r other = True"

subsection \<open>Packing and rotation\<close>

text \<open>
  DfsData.hpp declares PackedSize, Pack, Unpack and Rotate and leaves their bodies to
  DfsData.cpp. The definitions below follow the description of the record format:
  a fixed layout of the five fields, which Unpack reads back, and a rotation that remaps
  the best move through the symmetry of the board.
\<close>

text \<open>
  Modelled from the spec: the fixed-width encoding of one integer field, which the bodies
  of Pack and Unpack would use. A 32-bit field takes four bytes, the least significant
  first.
\<close>

definition WordToBytes :: "cint \<Rightarrow> byte list" where
  "WordToBytes w = map (\<lambda>i. ucast (drop_bit (8 * i) w)) [0..<4]"

fun BytesToWord :: "byte list \<Rightarrow> cint" where
  "BytesToWord [] = 0"
| "BytesToWord (b # bs) = ucast b OR push_bit 8 (BytesToWord bs)"

text \<open>
  Modelled from the spec: the body of \<open>DfsData::PackedSize\<close>, a fixed byte length
  sufficient for the win bit and the four other fields: one byte and four times four.
\<close>

definition PackedSize :: nat where
  "PackedSize = 17"

text \<open>
  Modelled from the spec: the body of \<open>DfsData::Pack\<close>, which serializes the fields
  into the fixed layout, in the order win, flags, numstates, nummoves, bestmove.
\<close>

definition Pack :: "DfsData \<Rightarrow> byte list" where
  "Pack r =
     (if win r then 1 else 0) # WordToBytes (flags r) @ WordToBytes (numstates r)
       @ WordToBytes (nummoves r) @ WordToBytes (word_of_nat (bestmove r))"

text \<open>
  Modelled from the spec: the body of \<open>DfsData::Unpack\<close>, the inverse of Pack. It
  sets every field from the bytes; a byte string of another length than PackedSize is a
  violation of the caller's contract and yields no record.
\<close>

definition Unpack :: "byte list \<Rightarrow> DfsData option" where
  "Unpack t =
     (if length t \<noteq> PackedSize then None
      else Some \<lparr>win = bit (t ! 0) 0,
                 flags = BytesToWord (take 4 (drop 1 t)),
                 numstates = BytesToWord (take 4 (drop 5 t)),
                 nummoves = BytesToWord (take 4 (drop 9 t)),
                 bestmove = unat (BytesToWord (take 4 (drop 13 t)))\<rparr>)"

text \<open>
  Modelled from the spec: the body of \<open>DfsData::Rotate\<close>, which remaps bestmove through
  the 180 degree symmetry mapping of the board and leaves the other fields alone. The
  mapping of the board is the first argument.
\<close>

definition Rotate :: "(HexPoint \<Rightarrow> HexPoint) \<Rightarrow> DfsData \<Rightarrow> DfsData" where
  "Rotate symmetry r = r\<lparr>bestmove := symmetry (bestmove r)\<rparr>"

section \<open>Boards and connection sets (the interface used by VCUtil.cpp)\<close>

text \<open>
  VCUtil.cpp reads a board only through a few queries. A \<open>ConstBoard\<close> gives the
  adjacency test and, for every point, the list of its neighbours in the order in which a
  BoardIterator visits them. A \<open>StoneBoard\<close> adds the occupied and the empty points.
  A \<open>VCS\<close> is the connection set of one color, read through FullExists and
  SemiIntersection; a \<open>HexBoard\<close> has one connection set per color and a position.
\<close>

record ConstBoard =
  Adjacent :: "HexPoint \<Rightarrow> HexPoint \<Rightarrow> bool"
  Nbs :: "HexPoint \<Rightarrow> HexPoint list"

record StoneBoard =
  Const :: ConstBoard
  GetOccupied :: bitset_t
  GetEmpty :: bitset_t

datatype HexColor = BLACK | WHITE

text \<open>
  Modelled from the spec: \<open>operator!\<close> on HexColor, which VCUtil.cpp uses and does not
  define; it yields the opponent of a color.
\<close>

fun other_color :: "HexColor \<Rightarrow> HexColor" where
  "other_color BLACK = WHITE"
| "other_color WHITE = BLACK"

record VCS =
  FullExists :: bool
  SemiIntersection :: bitset_t

record HexBoard =
  Cons_of :: "HexColor \<Rightarrow> VCS"
  GetPosition :: StoneBoard

section \<open>VCUtil.cpp\<close>

definition GetMustplay :: "HexBoard \<Rightarrow> HexColor \<Rightarrow> bitset_t" where
  "GetMustplay brd color =
     (let other = other_color color in
      if FullExists (Cons_of brd other) then EMPTY_BITSET
      else GetEmpty (GetPosition brd) \<inter> SemiIntersection (Cons_of brd other))"

text \<open>
  Modelled from the spec: \<open>BitsetUtil::BitsetToVector\<close>, which VCUtil.cpp calls and
  does not define. A carrier is a set of cells and cells are totally ordered: the vector
  lists the cells of the carrier in increasing order.
\<close>

definition BitsetToVector :: "bitset_t \<Rightarrow> HexPoint list" where
  "BitsetToVector b = sorted_list_of_set b"

text \<open>
  The nested loops over the neighbours of the two carrier cells: every pair of equal
  neighbours appends the point to \<open>adj\<close>.
\<close>

definition CommonNbs :: "StoneBoard \<Rightarrow> HexPoint \<Rightarrow> HexPoint \<Rightarrow> HexPoint list" where
  "CommonNbs brd p q =
     [n1. n1 \<leftarrow> Nbs (Const brd) p, n2 \<leftarrow> Nbs (Const brd) q, n1 = n2]"

text \<open>
  The loop \<open>for (i = 0; i < 2; ++i)\<close> that picks the edge: at the first index whose
  point is an edge it yields that point and the point at index \<open>i ^ 1\<close>.
\<close>

fun PickEdge :: "(HexPoint \<Rightarrow> bool) \<Rightarrow> HexPoint list \<Rightarrow> nat list \<Rightarrow> (HexPoint \<times> HexPoint) option" where
  "PickEdge isEdge adj [] = None"
| "PickEdge isEdge adj (i # is) =
     (if isEdge (adj ! i) then Some (adj ! i, adj ! (i XOR 1))
      else PickEdge isEdge adj is)"

text \<open>
  The result of a call of ValidEdgeBridge: the returned flag and the values of the two
  reference parameters after the call. A failed BenzeneAssert aborts the call.
\<close>

datatype error = AssertionFailure

record EdgeBridge =
  ret :: bool
  endpoint :: HexPoint
  edge :: HexPoint

text \<open>
  \<open>HexPointUtil::isEdge\<close> is passed as the first argument; \<open>endpoint0\<close> and
  \<open>edge0\<close> are the values of the reference parameters before the call. The two
  reference parameters are distinct objects. The reads \<open>miai[0]\<close> and \<open>miai[1]\<close>
  come after the test that the carrier has two cells, and the reads of \<open>adj\<close> after
  the assertion that it has two elements.
\<close>

definition ValidEdgeBridge ::
  "(HexPoint \<Rightarrow> bool) \<Rightarrow> StoneBoard \<Rightarrow> bitset_t \<Rightarrow> HexPoint \<Rightarrow> HexPoint \<Rightarrow> error + EdgeBridge" where
  "ValidEdgeBridge isEdge brd carrier endpoint0 edge0 =
     (if card carrier \<noteq> 2 then
        Inr \<lparr>ret = False, endpoint = endpoint0, edge = edge0\<rparr>
      else if GetOccupied brd \<inter> carrier \<noteq> {} then
        Inr \<lparr>ret = False, endpoint = endpoint0, edge = edge0\<rparr>
      else
        let miai = BitsetToVector carrier in
        if \<not> Adjacent (Const brd) (miai ! 0) (miai ! 1) then
          Inr \<lparr>ret = False, endpoint = endpoint0, edge = edge0\<rparr>
        else
          let adj = CommonNbs brd (miai ! 0) (miai ! 1) in
          if length adj \<noteq> 2 then Inl AssertionFailure
          else
            (case PickEdge isEdge adj [0, 1] of
               Some (e, p) \<Rightarrow> Inr \<lparr>ret = True, endpoint = p, edge = e\<rparr>
             | None \<Rightarrow> Inr \<lparr>ret = False, endpoint = endpoint0, edge = edge0\<rparr>))"

section \<open>Example boards\<close>

text \<open>
  The points of the examples are numbered NORTH = 3, EAST = 4, SOUTH = 5, WEST = 6, and
  the cells from 7 on, eleven to a row: a1 = 7, b1 = 8, a2 = 18, b2 = 19.
\<close>

definition isEdge_ex :: "HexPoint \<Rightarrow> bool" where
  "isEdge_ex p = (p = 3 \<or> p = 4 \<or> p = 5 \<or> p = 6)"

definition adjacent_in :: "(HexPoint \<Rightarrow> HexPoint list) \<Rightarrow> HexPoint \<Rightarrow> HexPoint \<Rightarrow> bool" where
  "adjacent_in nbs p q = (q \<in> set (nbs p))"

text \<open>
  The empty 2x2 board. a1 touches NORTH and WEST, b1 touches NORTH and EAST, a2 touches
  WEST and SOUTH, b2 touches EAST and SOUTH; b1 and a2 are neighbours.
\<close>

definition nbs_2x2 :: "HexPoint \<Rightarrow> HexPoint list" where
  "nbs_2x2 p =
     (if p = 7 then [8, 18, 3, 6]
      else if p = 8 then [4, 19, 18, 7, 3]
      else if p = 18 then [19, 6, 5, 7, 8]
      else if p = 19 then [4, 18, 5, 8]
      else if p = 3 then [7, 8, 4, 6]
      else if p = 4 then [8, 19, 5, 3]
      else if p = 5 then [18, 19, 6, 4]
      else if p = 6 then [7, 18, 3, 5]
      else [])"

definition board_2x2 :: StoneBoard where
  "board_2x2 =
     \<lparr>Const = \<lparr>Adjacent = adjacent_in nbs_2x2, Nbs = nbs_2x2\<rparr>,
      GetOccupied = {3, 4, 5, 6}, GetEmpty = {7, 8, 18, 19}\<rparr>"

text \<open>
  The 180 degree symmetry of the 2x2 board: NORTH and SOUTH, EAST and WEST, a1 and b2,
  b1 and a2 change places.
\<close>

definition symmetry_2x2 :: "HexPoint \<Rightarrow> HexPoint" where
  "symmetry_2x2 p =
     (if p = 3 then 5 else if p = 5 then 3
      else if p = 4 then 6 else if p = 6 then 4
      else if p = 7 then 19 else if p = 19 then 7
      else if p = 8 then 18 else if p = 18 then 8
      else p)"

text \<open>
  The empty board of width 2 and height 1: the cells a1 and b1 lie side by side and both
  touch NORTH and SOUTH.
\<close>

definition nbs_2x1 :: "HexPoint \<Rightarrow> HexPoint list" where
  "nbs_2x1 p =
     (if p = 7 then [8, 5, 6, 3]
      else if p = 8 then [4, 5, 7, 3]
      else if p = 3 then [7, 8, 4, 6]
      else if p = 4 then [8, 5, 3]
      else if p = 5 then [7, 8, 6, 4]
      else if p = 6 then [7, 3, 5]
      else [])"

definition board_2x1 :: StoneBoard where
  "board_2x1 =
     \<lparr>Const = \<lparr>Adjacent = adjacent_in nbs_2x1, Nbs = nbs_2x1\<rparr>,
      GetOccupied = {3, 4, 5, 6}, GetEmpty = {7, 8}\<rparr>"

text \<open>
  The 1x1 board whose only cell a1 holds a black stone, so that no cell is empty.
\<close>

definition nbs_1x1 :: "HexPoint \<Rightarrow> HexPoint list" where
  "nbs_1x1 p =
     (if p = 7 then [4, 5, 6, 3]
      else if p = 3 then [7, 4, 6]
      else if p = 4 then [7, 5, 3]
      else if p = 5 then [7, 6, 4]
      else if p = 6 then [7, 3, 5]
      else [])"

definition position_1x1_full :: StoneBoard where
  "position_1x1_full =
     \<lparr>Const = \<lparr>Adjacent = adjacent_in nbs_1x1, Nbs = nbs_1x1\<rparr>,
      GetOccupied = {3, 4, 5, 6, 7}, GetEmpty = {}\<rparr>"

text \<open>
  Black has joined NORTH and SOUTH through a1; White has no connection between EAST and
  WEST, neither full nor semi.
\<close>

definition hexboard_1x1_full :: HexBoard where
  "hexboard_1x1_full =
     \<lparr>Cons_of = (\<lambda>c. case c of
          BLACK \<Rightarrow> \<lparr>FullExists = True, SemiIntersection = {}\<rparr>
        | WHITE \<Rightarrow> \<lparr>FullExists = False, SemiIntersection = {}\<rparr>),
      GetPosition = position_1x1_full\<rparr>"

text \<open>
  The empty 2x2 board. Neither color has a full connection as second player; each has two
  semi-connections, one through b1 and one through a2, that share b1 and a2.
\<close>

definition hexboard_2x2_empty :: HexBoard where
  "hexboard_2x2_empty =
     \<lparr>Cons_of = (\<lambda>c. \<lparr>FullExists = False, SemiIntersection = {8, 18}\<rparr>),
      GetPosition = board_2x2\<rparr>"

text \<open>
  The 2x2 board after Black has played a2: Black is joined to SOUTH and reaches NORTH by
  the bridge a1, b1, a full connection. White has no connection left.
\<close>

definition hexboard_2x2_a2 :: HexBoard where
  "hexboard_2x2_a2 =
     \<lparr>Cons_of = (\<lambda>c. case c of
          BLACK \<Rightarrow> \<lparr>FullExists = True, SemiIntersection = {}\<rparr>
        | WHITE \<Rightarrow> \<lparr>FullExists = False, SemiIntersection = {}\<rparr>),
      GetPosition = board_2x2\<lparr>GetOccupied := {3, 4, 5, 6, 18}, GetEmpty := {7, 8, 19}\<rparr>\<rparr>"

section \<open>Properties of DfsData\<close>

text \<open>
  Claim C7. A default-constructed DfsData record is not initialized: its bestmove is the
  INVALID sentinel. For every record, Initialized holds if and only if bestmove differs
  from the sentinel.
\<close>

theorem Initialized_iff_bestmove:
  "\<not> Initialized INVALID_POINT (DfsData_default INVALID_POINT)
   \<and> bestmove (DfsData_default INVALID_POINT) = INVALID_POINT
   \<and> Initialized INVALID_POINT r = (bestmove r \<noteq> INVALID_POINT)"
  by (simp add: Initialized_def DfsData_default_def)

text \<open>
  Claim C8. For every pair of records r and other, ReplaceWith r other returns true:
  a stored record always gives up its slot.
\<close>

theorem ReplaceWith_always: "ReplaceWith r other = True"
  by (simp add: ReplaceWith_def)

subsection \<open>The record format\<close>

lemma WordToBytes_unfold:
  "WordToBytes w = [ucast w, ucast (drop_bit 8 w), ucast (drop_bit 16 w), ucast (drop_bit 24 w)]"
  by (simp add: WordToBytes_def upt_rec)

lemma length_WordToBytes: "length (WordToBytes w) = 4"
  by (simp add: WordToBytes_def)

lemma BytesToWord_WordToBytes: "BytesToWord (WordToBytes w) = w"
  unfolding WordToBytes_unfold
  apply simp
  apply (rule bit_word_eqI)
  apply (auto simp: bit_simps)
  subgoal for n by (cases "24 \<le> n") auto
  done

lemma Pack_length: "length (Pack r) = PackedSize"
  by (simp add: Pack_def PackedSize_def length_WordToBytes)

text \<open>
  Claim C5. For every record whose bestmove fits the width of its field, unpacking the
  bytes that Pack produces yields the record again.
\<close>

theorem Unpack_Pack:
  assumes "bestmove r < 2 ^ 32"
  shows "Unpack (Pack r) = Some r"
proof -
  have bm: "unat (word_of_nat (bestmove r) :: cint) = bestmove r"
    using assms by (simp add: unat_of_nat)
  have "Unpack (Pack r) =
      Some \<lparr>win = win r, flags = flags r, numstates = numstates r,
            nummoves = nummoves r, bestmove = bestmove r\<rparr>"
    unfolding Unpack_def
    by (simp add: Pack_length) (simp add: Pack_def length_WordToBytes BytesToWord_WordToBytes bm)
  then show ?thesis by simp
qed

theorem Unpack_Pack_witness:
  "bestmove \<lparr>win = True, flags = 2, numstates = 1000, nummoves = 3, bestmove = 19\<rparr> < 2 ^ 32
   \<and> Unpack (Pack \<lparr>win = True, flags = 2, numstates = 1000, nummoves = 3, bestmove = 19\<rparr>)
       = Some \<lparr>win = True, flags = 2, numstates = 1000, nummoves = 3, bestmove = 19\<rparr>"
proof -
  have h: "bestmove \<lparr>win = True, flags = 2, numstates = 1000, nummoves = 3, bestmove = 19\<rparr> < 2 ^ 32"
    by simp
  from h Unpack_Pack [OF h] show ?thesis by (rule conjI)
qed

text \<open>
  Claim C6. For every record and every board whose symmetry mapping is an involution,
  rotating twice gives the record back.
\<close>

theorem Rotate_Rotate:
  assumes "\<forall>p. symmetry (symmetry p) = p"
  shows "Rotate symmetry (Rotate symmetry r) = r"
  using assms by (simp add: Rotate_def)

theorem Rotate_Rotate_witness:
  "(\<forall>p. symmetry_2x2 (symmetry_2x2 p) = p)
   \<and> Rotate symmetry_2x2 \<lparr>win = True, flags = 0, numstates = 1, nummoves = 0, bestmove = 8\<rparr>
       = \<lparr>win = True, flags = 0, numstates = 1, nummoves = 0, bestmove = 18\<rparr>
   \<and> Rotate symmetry_2x2
         (Rotate symmetry_2x2 \<lparr>win = True, flags = 0, numstates = 1, nummoves = 0, bestmove = 8\<rparr>)
       = \<lparr>win = True, flags = 0, numstates = 1, nummoves = 0, bestmove = 8\<rparr>"
proof -
  have h: "\<forall>p. symmetry_2x2 (symmetry_2x2 p) = p"
    by (simp add: symmetry_2x2_def)
  have s: "Rotate symmetry_2x2 \<lparr>win = True, flags = 0, numstates = 1, nummoves = 0, bestmove = 8\<rparr>
       = \<lparr>win = True, flags = 0, numstates = 1, nummoves = 0, bestmove = 18\<rparr>"
    by (simp add: Rotate_def symmetry_2x2_def)
  from h s Rotate_Rotate [OF h] show ?thesis by blast
qed

section \<open>Properties of GetMustplay\<close>

text \<open>
  Claim C3. GetMustplay returns the empty carrier when the opponent of the color has a
  full connection, and otherwise exactly the intersection of the empty cells of the
  position with the semi-connection intersection of the opponent.
\<close>

theorem GetMustplay_branches:
  "(FullExists (Cons_of brd (other_color color)) \<longrightarrow> GetMustplay brd color = EMPTY_BITSET)
   \<and> (\<not> FullExists (Cons_of brd (other_color color)) \<longrightarrow>
        GetMustplay brd color =
          GetEmpty (GetPosition brd) \<inter> SemiIntersection (Cons_of brd (other_color color)))"
  by (simp add: GetMustplay_def)

theorem GetMustplay_branches_witness:
  "FullExists (Cons_of hexboard_2x2_a2 (other_color WHITE))
   \<and> GetMustplay hexboard_2x2_a2 WHITE = EMPTY_BITSET
   \<and> \<not> FullExists (Cons_of hexboard_2x2_empty (other_color BLACK))
   \<and> GetMustplay hexboard_2x2_empty BLACK =
        GetEmpty (GetPosition hexboard_2x2_empty)
          \<inter> SemiIntersection (Cons_of hexboard_2x2_empty (other_color BLACK))
   \<and> GetMustplay hexboard_2x2_empty BLACK = {8, 18}"
proof -
  have f: "FullExists (Cons_of hexboard_2x2_a2 (other_color WHITE))"
    by (simp add: hexboard_2x2_a2_def)
  have n: "\<not> FullExists (Cons_of hexboard_2x2_empty (other_color BLACK))"
    by (simp add: hexboard_2x2_empty_def)
  have v: "GetEmpty (GetPosition hexboard_2x2_empty)
          \<inter> SemiIntersection (Cons_of hexboard_2x2_empty (other_color BLACK)) = {8, 18}"
    by (simp add: hexboard_2x2_empty_def board_2x2_def)
  from GetMustplay_branches [of hexboard_2x2_a2 WHITE] f
  have a: "GetMustplay hexboard_2x2_a2 WHITE = EMPTY_BITSET" by simp
  from GetMustplay_branches [of hexboard_2x2_empty BLACK] n
  have b: "GetMustplay hexboard_2x2_empty BLACK =
        GetEmpty (GetPosition hexboard_2x2_empty)
          \<inter> SemiIntersection (Cons_of hexboard_2x2_empty (other_color BLACK))" by simp
  from f a n b v show ?thesis by simp
qed

text \<open>
  Claim C2, as stated, fails. On the 1x1 board whose cell holds a black stone, White has no
  full connection, and still the mustplay of Black is empty, since no cell is empty.
\<close>

theorem GetMustplay_empty_without_full_counterexample:
  "GetMustplay hexboard_1x1_full BLACK = EMPTY_BITSET
   \<and> \<not> FullExists (Cons_of hexboard_1x1_full (other_color BLACK))"
  by (simp add: GetMustplay_def hexboard_1x1_full_def position_1x1_full_def EMPTY_BITSET_def)

text \<open>
  Claim C2, as amended. GetMustplay returns the empty carrier if and only if the opponent
  has a full connection or no empty cell lies in the semi-connection intersection of the
  opponent.
\<close>

theorem GetMustplay_empty_iff:
  "GetMustplay brd color = EMPTY_BITSET \<longleftrightarrow>
     FullExists (Cons_of brd (other_color color))
     \<or> GetEmpty (GetPosition brd) \<inter> SemiIntersection (Cons_of brd (other_color color)) = {}"
  by (simp add: GetMustplay_def EMPTY_BITSET_def Let_def)

theorem GetMustplay_empty_iff_witness:
  "GetMustplay hexboard_2x2_a2 WHITE = EMPTY_BITSET
   \<and> GetMustplay hexboard_1x1_full BLACK = EMPTY_BITSET
   \<and> GetMustplay hexboard_2x2_empty BLACK \<noteq> EMPTY_BITSET"
  using GetMustplay_empty_iff [of hexboard_2x2_a2 WHITE]
    GetMustplay_empty_iff [of hexboard_1x1_full BLACK]
    GetMustplay_empty_iff [of hexboard_2x2_empty BLACK]
  by (simp add: hexboard_2x2_a2_def hexboard_1x1_full_def position_1x1_full_def
      hexboard_2x2_empty_def board_2x2_def)

section \<open>Properties of ValidEdgeBridge\<close>

lemma PickEdge_two:
  "PickEdge isEdge [a, b] [0, 1] =
     (if isEdge a then Some (a, b) else if isEdge b then Some (b, a) else None)"
  by simp

lemma length_twoD: "length xs = 2 \<Longrightarrow> \<exists>a b. xs = [a, b]"
  by (auto simp: length_Suc_conv numeral_2_eq_2)

lemma BitsetToVector_pair: "m0 < m1 \<Longrightarrow> BitsetToVector {m0, m1} = [m0, m1]"
  by (simp add: BitsetToVector_def)

lemma card_two_ordered:
  fixes c :: "nat set"
  assumes "card c = 2"
  shows "\<exists>m0 m1. m0 < m1 \<and> c = {m0, m1}"
proof -
  from assms obtain x y where xy: "c = {x, y}" "x \<noteq> y"
    by (auto simp: card_2_iff)
  show ?thesis
  proof (cases "x < y")
    case True
    with xy show ?thesis by blast
  next
    case False
    with xy have "y < x" "c = {y, x}" by auto
    then show ?thesis by blast
  qed
qed

lemma EdgeBridge_ret:
  "Inr \<lparr>ret = f, endpoint = p, edge = e\<rparr> = (Inr r :: error + EdgeBridge)
     \<Longrightarrow> ret r = f \<and> endpoint r = p \<and> edge r = e"
  by (cases r) simp

text \<open>The function on a carrier of two cells, the lower index first.\<close>

lemma ValidEdgeBridge_pair:
  assumes "m0 < m1"
  shows "ValidEdgeBridge isEdge brd {m0, m1} endpoint0 edge0 =
     (if GetOccupied brd \<inter> {m0, m1} \<noteq> {} then
        Inr \<lparr>ret = False, endpoint = endpoint0, edge = edge0\<rparr>
      else if \<not> Adjacent (Const brd) m0 m1 then
        Inr \<lparr>ret = False, endpoint = endpoint0, edge = edge0\<rparr>
      else if length (CommonNbs brd m0 m1) \<noteq> 2 then Inl AssertionFailure
      else
        (case PickEdge isEdge (CommonNbs brd m0 m1) [0, 1] of
           Some (e, p) \<Rightarrow> Inr \<lparr>ret = True, endpoint = p, edge = e\<rparr>
         | None \<Rightarrow> Inr \<lparr>ret = False, endpoint = endpoint0, edge = edge0\<rparr>))"
proof -
  from assms have "card {m0, m1} = 2" by simp
  with assms show ?thesis
    by (simp add: ValidEdgeBridge_def BitsetToVector_pair Let_def)
qed

text \<open>One lemma for each way out of the function.\<close>

lemma ValidEdgeBridge_card:
  "card carrier \<noteq> 2 \<Longrightarrow>
     ValidEdgeBridge isEdge brd carrier endpoint0 edge0 =
       Inr \<lparr>ret = False, endpoint = endpoint0, edge = edge0\<rparr>"
  by (simp add: ValidEdgeBridge_def)

lemma ValidEdgeBridge_occupied:
  "GetOccupied brd \<inter> carrier \<noteq> {} \<Longrightarrow>
     ValidEdgeBridge isEdge brd carrier endpoint0 edge0 =
       Inr \<lparr>ret = False, endpoint = endpoint0, edge = edge0\<rparr>"
  by (simp add: ValidEdgeBridge_def)

lemma ValidEdgeBridge_not_adjacent:
  "m0 < m1 \<Longrightarrow> \<not> Adjacent (Const brd) m0 m1 \<Longrightarrow>
     ValidEdgeBridge isEdge brd {m0, m1} endpoint0 edge0 =
       Inr \<lparr>ret = False, endpoint = endpoint0, edge = edge0\<rparr>"
  by (simp add: ValidEdgeBridge_pair)

lemma ValidEdgeBridge_assert:
  "m0 < m1 \<Longrightarrow> GetOccupied brd \<inter> {m0, m1} = {} \<Longrightarrow> Adjacent (Const brd) m0 m1 \<Longrightarrow>
   length (CommonNbs brd m0 m1) \<noteq> 2 \<Longrightarrow>
     ValidEdgeBridge isEdge brd {m0, m1} endpoint0 edge0 = Inl AssertionFailure"
  by (simp add: ValidEdgeBridge_pair)

lemma ValidEdgeBridge_pick:
  "m0 < m1 \<Longrightarrow> GetOccupied brd \<inter> {m0, m1} = {} \<Longrightarrow> Adjacent (Const brd) m0 m1 \<Longrightarrow>
   CommonNbs brd m0 m1 = [a, b] \<Longrightarrow>
     ValidEdgeBridge isEdge brd {m0, m1} endpoint0 edge0 =
       (if isEdge a then Inr \<lparr>ret = True, endpoint = b, edge = a\<rparr>
        else if isEdge b then Inr \<lparr>ret = True, endpoint = a, edge = b\<rparr>
        else Inr \<lparr>ret = False, endpoint = endpoint0, edge = edge0\<rparr>)"
  by (simp add: ValidEdgeBridge_pair PickEdge_two)

text \<open>
  Claim C1, as stated, fails. On the board of width 2 and height 1 the carrier of the two
  empty cells a1 and b1 has NORTH and SOUTH as its two common neighbours: both are edges,
  the function returns true, and the endpoint it writes is an edge.
\<close>

theorem ValidEdgeBridge_interior_endpoint_counterexample:
  "ValidEdgeBridge isEdge_ex board_2x1 {7, 8} 0 0 = Inr \<lparr>ret = True, endpoint = 3, edge = 5\<rparr>
   \<and> CommonNbs board_2x1 7 8 = [5, 3] \<and> isEdge_ex 5 \<and> isEdge_ex 3"
  by code_simp

text \<open>
  Claim C1, as amended. ValidEdgeBridge returns true only when the carrier has exactly two
  cells, neither is occupied, the two cells are adjacent, they have exactly two common
  neighbours and at least one of these is an edge. The edge written is the first common
  neighbour that is an edge, and the endpoint written is the other common neighbour. The
  endpoint is a non-edge cell whenever the two common neighbours are not both edges.
\<close>

theorem ValidEdgeBridge_true_only_when:
  assumes "ValidEdgeBridge isEdge brd carrier endpoint0 edge0 = Inr r" and "ret r"
  shows "\<exists>m0 m1 a b. m0 < m1 \<and> carrier = {m0, m1}
           \<and> m0 \<notin> GetOccupied brd \<and> m1 \<notin> GetOccupied brd
           \<and> Adjacent (Const brd) m0 m1
           \<and> CommonNbs brd m0 m1 = [a, b]
           \<and> (isEdge a \<or> isEdge b)
           \<and> edge r = (if isEdge a then a else b)
           \<and> endpoint r = (if isEdge a then b else a)
           \<and> (\<not> (isEdge a \<and> isEdge b) \<longrightarrow> \<not> isEdge (endpoint r))"
proof -
  let ?no = "Inr \<lparr>ret = False, endpoint = endpoint0, edge = edge0\<rparr> :: error + EdgeBridge"
  let ?veb = "\<lambda>c. ValidEdgeBridge isEdge brd c endpoint0 edge0"
  have no: "?no \<noteq> Inr r"
  proof
    assume "?no = Inr r"
    from EdgeBridge_ret [OF this] assms(2) show False by simp
  qed
  have c2: "card carrier = 2"
  proof (rule ccontr)
    assume "card carrier \<noteq> 2"
    then have "?veb carrier = ?no" by (rule ValidEdgeBridge_card)
    with assms(1) have "?no = Inr r" by (simp only:)
    with no show False ..
  qed
  then obtain m0 m1 where m: "m0 < m1" "carrier = {m0, m1}"
    using card_two_ordered by blast
  have veb: "?veb {m0, m1} = Inr r"
    using assms(1) m(2) by simp
  have occ: "GetOccupied brd \<inter> {m0, m1} = {}"
  proof (rule ccontr)
    assume "GetOccupied brd \<inter> {m0, m1} \<noteq> {}"
    then have "?veb {m0, m1} = ?no" by (rule ValidEdgeBridge_occupied)
    with veb have "?no = Inr r" by (simp only:)
    with no show False ..
  qed
  have adjc: "Adjacent (Const brd) m0 m1"
  proof (rule ccontr)
    assume "\<not> Adjacent (Const brd) m0 m1"
    with m(1) have "?veb {m0, m1} = ?no" by (rule ValidEdgeBridge_not_adjacent)
    with veb have "?no = Inr r" by (simp only:)
    with no show False ..
  qed
  have len: "length (CommonNbs brd m0 m1) = 2"
  proof (rule ccontr)
    assume "length (CommonNbs brd m0 m1) \<noteq> 2"
    with m(1) occ adjc have "?veb {m0, m1} = Inl AssertionFailure"
      by (rule ValidEdgeBridge_assert)
    with veb have "Inl AssertionFailure = (Inr r :: error + EdgeBridge)" by (simp only:)
    then show False by (simp only: sum.simps)
  qed
  from length_twoD [OF this] obtain a b where ab: "CommonNbs brd m0 m1 = [a, b]"
    by (elim exE)
  note pick = ValidEdgeBridge_pick [OF m(1) occ adjc ab, of isEdge endpoint0 edge0]
  have res: "(isEdge a \<or> isEdge b) \<and> edge r = (if isEdge a then a else b)
        \<and> endpoint r = (if isEdge a then b else a)"
  proof (cases "isEdge a")
    case True
    with pick veb have "Inr \<lparr>ret = True, endpoint = b, edge = a\<rparr> = (Inr r :: error + EdgeBridge)"
      by (simp only: if_True)
    from EdgeBridge_ret [OF this] True show ?thesis by simp
  next
    case False
    note na = this
    show ?thesis
    proof (cases "isEdge b")
      case True
      with na pick veb have "Inr \<lparr>ret = True, endpoint = a, edge = b\<rparr> = (Inr r :: error + EdgeBridge)"
        by (simp only: if_True if_False)
      from EdgeBridge_ret [OF this] na True show ?thesis by simp
    next
      case False
      with na pick veb have "?no = Inr r" by (simp only: if_False)
      with no show ?thesis ..
    qed
  qed
  have o0: "m0 \<notin> GetOccupied brd" and o1: "m1 \<notin> GetOccupied brd"
    using occ by auto
  have last: "\<not> (isEdge a \<and> isEdge b) \<longrightarrow> \<not> isEdge (endpoint r)"
  proof (cases "isEdge a")
    case True
    with res show ?thesis by simp
  next
    case False
    with res show ?thesis by simp
  qed
  show ?thesis
    apply (rule exI [of _ m0])
    apply (rule exI [of _ m1])
    apply (rule exI [of _ a])
    apply (rule exI [of _ b])
    using m o0 o1 adjc ab res last apply simp
    done
qed

theorem ValidEdgeBridge_true_only_when_witness:
  "ValidEdgeBridge isEdge_ex board_2x2 {7, 8} 0 0 = Inr \<lparr>ret = True, endpoint = 18, edge = 3\<rparr>
   \<and> (\<exists>m0 m1 a b. m0 < m1 \<and> {7, 8} = {m0, m1}
           \<and> m0 \<notin> GetOccupied board_2x2 \<and> m1 \<notin> GetOccupied board_2x2
           \<and> Adjacent (Const board_2x2) m0 m1
           \<and> CommonNbs board_2x2 m0 m1 = [a, b]
           \<and> (isEdge_ex a \<or> isEdge_ex b)
           \<and> edge \<lparr>ret = True, endpoint = 18, edge = 3\<rparr> = (if isEdge_ex a then a else b)
           \<and> endpoint \<lparr>ret = True, endpoint = 18, edge = 3\<rparr> = (if isEdge_ex a then b else a)
           \<and> (\<not> (isEdge_ex a \<and> isEdge_ex b)
                \<longrightarrow> \<not> isEdge_ex (endpoint \<lparr>ret = True, endpoint = 18, edge = 3\<rparr>)))"
proof -
  have h: "ValidEdgeBridge isEdge_ex board_2x2 {7, 8} 0 0
             = Inr \<lparr>ret = True, endpoint = 18, edge = 3\<rparr>"
    by code_simp
  have t: "ret \<lparr>ret = True, endpoint = 18, edge = 3\<rparr>"
    by simp
  from h ValidEdgeBridge_true_only_when [OF h t] show ?thesis
    by (rule conjI)
qed

text \<open>
  Claim C4. ValidEdgeBridge returns false, leaving both outputs as they were, whenever the
  carrier does not have exactly two cells, or a cell of the carrier is occupied, or the
  two carrier cells are not adjacent, or neither of their two common neighbours is an
  edge. Adjacency is the test the function makes: the cell of lower index first.
\<close>

theorem ValidEdgeBridge_false_when:
  assumes "card carrier \<noteq> 2 \<or> GetOccupied brd \<inter> carrier \<noteq> {}
     \<or> (\<exists>m0 m1. m0 < m1 \<and> carrier = {m0, m1}
           \<and> (\<not> Adjacent (Const brd) m0 m1
               \<or> (\<exists>a b. CommonNbs brd m0 m1 = [a, b] \<and> \<not> isEdge a \<and> \<not> isEdge b)))"
  shows "ValidEdgeBridge isEdge brd carrier endpoint0 edge0 =
           Inr \<lparr>ret = False, endpoint = endpoint0, edge = edge0\<rparr>"
proof (cases "card carrier \<noteq> 2")
  case True
  then show ?thesis by (rule ValidEdgeBridge_card)
next
  case False
  note c2 = this
  show ?thesis
  proof (cases "GetOccupied brd \<inter> carrier \<noteq> {}")
    case True
    then show ?thesis by (rule ValidEdgeBridge_occupied)
  next
    case False
    then have oc: "GetOccupied brd \<inter> carrier = {}" by simp
    from False c2 assms obtain m0 m1 where m: "m0 < m1" "carrier = {m0, m1}"
      and d: "\<not> Adjacent (Const brd) m0 m1
               \<or> (\<exists>a b. CommonNbs brd m0 m1 = [a, b] \<and> \<not> isEdge a \<and> \<not> isEdge b)"
      by blast
    show ?thesis
    proof (cases "Adjacent (Const brd) m0 m1")
      case False
      with m(1) show ?thesis unfolding m(2) by (rule ValidEdgeBridge_not_adjacent)
    next
      case True
      with d obtain a b where ab: "CommonNbs brd m0 m1 = [a, b]" "\<not> isEdge a" "\<not> isEdge b"
        by blast
      from oc m(2)
      have occ: "GetOccupied brd \<inter> {m0, m1} = {}" by simp
      from ValidEdgeBridge_pick [OF m(1) occ True ab(1), of isEdge endpoint0 edge0] ab(2,3)
      show ?thesis unfolding m(2) by simp
    qed
  qed
qed

theorem ValidEdgeBridge_false_when_witness:
  "ValidEdgeBridge isEdge_ex board_2x2 {7} 1 2 = Inr \<lparr>ret = False, endpoint = 1, edge = 2\<rparr>
   \<and> ValidEdgeBridge isEdge_ex board_2x2 {3, 7} 1 2 = Inr \<lparr>ret = False, endpoint = 1, edge = 2\<rparr>
   \<and> ValidEdgeBridge isEdge_ex board_2x2 {7, 19} 1 2 = Inr \<lparr>ret = False, endpoint = 1, edge = 2\<rparr>
   \<and> ValidEdgeBridge isEdge_ex board_2x2 {8, 18} 1 2 = Inr \<lparr>ret = False, endpoint = 1, edge = 2\<rparr>"
proof -
  have h1: "card {7::nat} \<noteq> 2" by simp
  have h2: "GetOccupied board_2x2 \<inter> {3, 7} \<noteq> {}" by (simp add: board_2x2_def)
  have h3: "\<exists>m0 m1. m0 < m1 \<and> {7, 19} = {m0, m1}
           \<and> (\<not> Adjacent (Const board_2x2) m0 m1
               \<or> (\<exists>a b. CommonNbs board_2x2 m0 m1 = [a, b] \<and> \<not> isEdge_ex a \<and> \<not> isEdge_ex b))"
    apply (rule exI [of _ 7])
    apply (rule exI [of _ 19])
    apply (simp add: board_2x2_def adjacent_in_def nbs_2x2_def)
    done
  have h4: "\<exists>m0 m1. m0 < m1 \<and> {8, 18} = {m0, m1}
           \<and> (\<not> Adjacent (Const board_2x2) m0 m1
               \<or> (\<exists>a b. CommonNbs board_2x2 m0 m1 = [a, b] \<and> \<not> isEdge_ex a \<and> \<not> isEdge_ex b))"
    apply (rule exI [of _ 8])
    apply (rule exI [of _ 18])
    apply (simp add: board_2x2_def adjacent_in_def nbs_2x2_def CommonNbs_def isEdge_ex_def)
    done
  show ?thesis
    using ValidEdgeBridge_false_when [of "{7}" board_2x2 isEdge_ex 1 2]
      ValidEdgeBridge_false_when [of "{3, 7}" board_2x2 isEdge_ex 1 2]
      ValidEdgeBridge_false_when [of "{7, 19}" board_2x2 isEdge_ex 1 2]
      ValidEdgeBridge_false_when [of "{8, 18}" board_2x2 isEdge_ex 1 2]
      h1 h2 h3 h4
    by blast
qed

text \<open>
  Claim C10. Whenever ValidEdgeBridge returns false, the output parameters endpoint and
  edge hold the values they held before the call.
\<close>

theorem ValidEdgeBridge_false_frame:
  assumes "ValidEdgeBridge isEdge brd carrier endpoint0 edge0 = Inr r" and "\<not> ret r"
  shows "endpoint r = endpoint0 \<and> edge r = edge0"
  using assms
  by (auto simp: ValidEdgeBridge_def Let_def split: if_splits option.splits)

theorem ValidEdgeBridge_false_frame_witness:
  "ValidEdgeBridge isEdge_ex board_2x2 {8, 18} 41 42 = Inr \<lparr>ret = False, endpoint = 41, edge = 42\<rparr>
   \<and> endpoint \<lparr>ret = False, endpoint = 41, edge = 42\<rparr> = 41
   \<and> edge \<lparr>ret = False, endpoint = 41, edge = 42\<rparr> = 42"
proof -
  have h: "ValidEdgeBridge isEdge_ex board_2x2 {8, 18} 41 42
             = Inr \<lparr>ret = False, endpoint = 41, edge = 42\<rparr>"
    by code_simp
  have f: "\<not> ret \<lparr>ret = False, endpoint = 41, edge = 42\<rparr>"
    by simp
  from h ValidEdgeBridge_false_frame [OF h f] show ?thesis
    by (rule conjI)
qed

end
